theory Spec2Isabelle
  imports Main "HOL-Library.Word"
begin

section \<open>JavaScript strings\<close>

text \<open>
  A JavaScript string is a sequence of UTF-16 code units; \<open>length\<close>, \<open>substring\<close>,
  \<open>trim\<close> and the regular expressions of the source all work on code units. String
  literals of the source are ASCII and are written through \<open>js\<close>.
\<close>

type_synonym jschar = "16 word"
type_synonym jsstring = "jschar list"

definition js :: "string \<Rightarrow> jsstring" where
  "js s = map (\<lambda>c. of_char c) s"

text \<open>The code units removed by \<open>String.prototype.trim\<close>: WhiteSpace and LineTerminator.\<close>

definition isWhiteSpace :: "jschar \<Rightarrow> bool" where
  "isWhiteSpace c =
     (c = 0x9 \<or> c = 0xA \<or> c = 0xB \<or> c = 0xC \<or> c = 0xD \<or> c = 0x20 \<or> c = 0xA0 \<or>
      c = 0x1680 \<or> (0x2000 \<le> c \<and> c \<le> 0x200A) \<or> c = 0x2028 \<or> c = 0x2029 \<or>
      c = 0x202F \<or> c = 0x205F \<or> c = 0x3000 \<or> c = 0xFEFF)"

definition trim :: "jsstring \<Rightarrow> jsstring" where
  "trim s = rev (dropWhile isWhiteSpace (rev (dropWhile isWhiteSpace s)))"

text \<open>\<open>s.endsWith(suf)\<close>\<close>

definition endsWith :: "jsstring \<Rightarrow> jsstring \<Rightarrow> bool" where
  "endsWith s suf = (length suf \<le> length s \<and> drop (length s - length suf) s = suf)"

text \<open>\<open>s.substring(0, n)\<close> for a non-negative \<open>n\<close>\<close>

definition substring0 :: "nat \<Rightarrow> jsstring \<Rightarrow> jsstring" where
  "substring0 n s = take n s"

text \<open>
  \<open>xs.slice(start)\<close> on an array: a negative \<open>start\<close> counts from the end and is
  clamped at the beginning, a non-negative one is clamped at the length. \<open>-0\<close> and
  \<open>NaN\<close> both convert to the integer 0, so \<open>xs.slice(-0)\<close> is the whole array.
\<close>

definition slice :: "int \<Rightarrow> 'a list \<Rightarrow> 'a list" where
  "slice start xs =
     (let len = int (length xs);
          k = (if start < 0 then max (len + start) 0 else min start len)
      in drop (nat k) xs)"

section \<open>Message classification (textExtraction.ts and the worker)\<close>

text \<open>
  Case-insensitive matching of a regular expression without the \<open>u\<close> flag compares
  canonicalized code units: a code unit is mapped to its upper case, except that a
  non-ASCII code unit is never mapped to an ASCII one. The pattern of the source has ASCII
  characters only, so on the input side it is enough to map \<open>a..z\<close> to \<open>A..Z\<close>:
  every other code unit that the real mapping changes stays outside ASCII and matches no
  pattern character either way.
\<close>

definition canonicalize :: "jschar \<Rightarrow> jschar" where
  "canonicalize c = (if 0x61 \<le> c \<and> c \<le> 0x7A then c - 0x20 else c)"

text \<open>Match a literal at the start of the input, ignoring case; the rest of the input.\<close>

fun litCI :: "jsstring \<Rightarrow> jsstring \<Rightarrow> jsstring option" where
  "litCI [] s = Some s"
| "litCI (p # ps) [] = None"
| "litCI (p # ps) (c # cs) = (if canonicalize p = canonicalize c then litCI ps cs else None)"

definition matchesCI :: "jsstring \<Rightarrow> jsstring \<Rightarrow> bool" where
  "matchesCI p s = (case litCI p s of None \<Rightarrow> False | Some _ \<Rightarrow> True)"

text \<open>\<open>/^https?:\/\//i.test(s)\<close>: the optional \<open>s\<close> is tried first, then skipped.\<close>

definition urlPattern :: "jsstring \<Rightarrow> bool" where
  "urlPattern s =
     (case litCI (js ''http'') s of
        None \<Rightarrow> False
      | Some r \<Rightarrow>
          (case litCI (js ''s'') r of
             Some r' \<Rightarrow> if matchesCI (js ''://'') r' then True else matchesCI (js ''://'') r
           | None \<Rightarrow> matchesCI (js ''://'') r))"

definition isURL :: "jsstring \<Rightarrow> bool" where
  "isURL text = urlPattern (trim text)"

text \<open>The character class \<open>[.!?]\<close>\<close>

definition sentenceEnding :: "jschar \<Rightarrow> bool" where
  "sentenceEnding c = (c = 0x2E \<or> c = 0x21 \<or> c = 0x3F)"

definition isLikelyContentToSummarize :: "jsstring \<Rightarrow> bool" where
  "isLikelyContentToSummarize text =
     (let trimmed = trim text in
      if endsWith trimmed (js ''?'') then False
      else if length trimmed > 200 then True
      else
        let sentenceEndings = length (filter sentenceEnding trimmed) in
        if sentenceEndings \<ge> 3 then True else False)"

datatype message_type = URL | CONTENT | FOLLOWUP

definition determineMessageType :: "jsstring \<Rightarrow> message_type" where
  "determineMessageType message =
     (if isURL message then URL
      else if isLikelyContentToSummarize message then CONTENT
      else FOLLOWUP)"

subsection \<open>The classifier as the specification words it\<close>

definition toLowerAscii :: "jschar \<Rightarrow> jschar" where
  "toLowerAscii c = (if 0x41 \<le> c \<and> c \<le> 0x5A then c + 0x20 else c)"

text \<open>The text starts with the (lower-case) scheme, letters compared without case.\<close>

definition startsWithScheme :: "jsstring \<Rightarrow> jsstring \<Rightarrow> bool" where
  "startsWithScheme scheme t = (map toLowerAscii (take (length scheme) t) = scheme)"

definition endsWithQuestionMark :: "jsstring \<Rightarrow> bool" where
  "endsWithQuestionMark t = (case rev t of [] \<Rightarrow> False | c # _ \<Rightarrow> c = 0x3F)"

definition classify :: "jsstring \<Rightarrow> message_type" where
  "classify text =
     (let t = trim text in
      if startsWithScheme (js ''http://'') t then URL
      else if startsWithScheme (js ''https://'') t then URL
      else if endsWithQuestionMark t then FOLLOWUP
      else if length t > 200 then CONTENT
      else if length (filter sentenceEnding text) \<ge> 3 then CONTENT
      else FOLLOWUP)"

definition isUpperAscii :: "jschar \<Rightarrow> bool" where
  "isUpperAscii c = (0x41 \<le> c \<and> c \<le> 0x5A)"

section \<open>The conversation store (chatRoomDO.ts)\<close>

text \<open>
  A timestamp is the instant a \<open>new Date()\<close> reads, in milliseconds; \<open>toISOString\<close>
  renders it in a fixed-width format whose string order is the order of the instants.
\<close>

type_synonym timestamp = nat

datatype role = User | Assistant | System

datatype entry_type = UrlSummary | RawSummary | Followup | Question

record ConversationEntry =
  role :: role
  content :: jsstring
  entryType :: "entry_type option"
  url :: "jsstring option"
  createdAt :: timestamp

text \<open>
  The body of an append request as \<open>request.json()\<close> parses it: any field may be
  missing. A \<open>createdAt\<close> that is missing or the empty string is \<open>None\<close>.
\<close>

record EntryJson =
  jsonRole :: "role option"
  jsonContent :: "jsstring option"
  jsonType :: "entry_type option"
  jsonUrl :: "jsstring option"
  jsonCreatedAt :: "timestamp option"

text \<open>\<open>JSON.stringify(entry)\<close> of a well-typed entry, as the store parses it back.\<close>

definition toJson :: "ConversationEntry \<Rightarrow> EntryJson" where
  "toJson e =
     \<lparr>jsonRole = Some (role e), jsonContent = Some (content e), jsonType = entryType e,
      jsonUrl = url e, jsonCreatedAt = Some (createdAt e)\<rparr>"

record StoredState =
  storedEntries :: "ConversationEntry list"
  storedCreatedAt :: timestamp
  storedLastAccessedAt :: timestamp

text \<open>The object's fields, and the record under the key \<open>state\<close> in durable storage.\<close>

record ChatRoom =
  entries :: "ConversationEntry list"
  roomCreatedAt :: timestamp
  lastAccessedAt :: timestamp
  storage :: "StoredState option"

datatype http_method = GET | POST

record Request =
  path :: jsstring
  requestMethod :: http_method
  limitParam :: "jsstring option"
  requestBody :: "EntryJson option"

datatype body =
    AppendOk nat
  | RecentEntries "ConversationEntry list"
  | Cleared
  | Stats nat timestamp timestamp
  | ErrorJson jsstring
  | PlainText jsstring

record Response =
  status :: nat
  body :: body

definition ok :: "Response \<Rightarrow> bool" where
  "ok r = (200 \<le> status r \<and> status r \<le> 299)"

text \<open>
  What a request meets outside the object: the clock at the two places that read it
  (the default for a missing \<open>createdAt\<close>, and the access time), and whether the
  write to durable storage completes.
\<close>

record DOEnv =
  nowCreated :: timestamp
  nowAccessed :: timestamp
  putOk :: bool

text \<open>\<open>saveState\<close>; \<open>None\<close> when \<open>storage.put\<close> rejects.\<close>

definition saveState :: "bool \<Rightarrow> ChatRoom \<Rightarrow> ChatRoom option" where
  "saveState written s =
     (if written
      then Some (s\<lparr>storage := Some \<lparr>storedEntries = entries s,
                                     storedCreatedAt = roomCreatedAt s,
                                     storedLastAccessedAt = lastAccessedAt s\<rparr>\<rparr>)
      else None)"

text \<open>
  A handler returns its response, or \<open>None\<close> when it throws; the object's fields keep
  what was assigned before the exception.
\<close>

definition handleAppend :: "DOEnv \<Rightarrow> Request \<Rightarrow> ChatRoom \<Rightarrow> Response option \<times> ChatRoom" where
  "handleAppend env request s =
     (if requestMethod request = POST then
        (case requestBody request of
           None \<Rightarrow> (None, s)
         | Some entry \<Rightarrow>
             (case (jsonRole entry, jsonContent entry) of
                (Some r, Some c) \<Rightarrow>
                  if c = [] then
                    (Some \<lparr>status = 400,
                           body = ErrorJson (js ''Invalid entry: role and content are required'')\<rparr>, s)
                  else
                    let stamped =
                          \<lparr>role = r, content = c, entryType = jsonType entry, url = jsonUrl entry,
                           createdAt = (case jsonCreatedAt entry of
                                          None \<Rightarrow> nowCreated env
                                        | Some t \<Rightarrow> t)\<rparr>;
                        s1 = s\<lparr>entries := entries s @ [stamped], lastAccessedAt := nowAccessed env\<rparr>
                    in (case saveState (putOk env) s1 of
                          None \<Rightarrow> (None, s1)
                        | Some s2 \<Rightarrow>
                            (Some \<lparr>status = 200, body = AppendOk (length (entries s2))\<rparr>, s2))
              | _ \<Rightarrow>
                  (Some \<lparr>status = 400,
                         body = ErrorJson (js ''Invalid entry: role and content are required'')\<rparr>, s)))
      else (Some \<lparr>status = 405, body = PlainText (js ''Method not allowed'')\<rparr>, s))"

definition isDigit :: "jschar \<Rightarrow> bool" where
  "isDigit c = (0x30 \<le> c \<and> c \<le> 0x39)"

text \<open>
  \<open>parseInt(str, 10)\<close>: leading white space, an optional sign, then the longest run of
  digits; \<open>None\<close> is \<open>NaN\<close>. The value is exact here; a double rounds it above
  \<open>2^53\<close>, far beyond any array length.
\<close>

definition parseInt :: "jsstring \<Rightarrow> int option" where
  "parseInt str =
     (let s = dropWhile isWhiteSpace str;
          (sign, rest) = (case s of
                            [] \<Rightarrow> (1, [])
                          | c # cs \<Rightarrow> if c = 0x2D then (- 1, cs)
                                      else if c = 0x2B then (1, cs) else (1, s));
          digits = takeWhile isDigit rest
      in if digits = [] then None
         else Some (sign * foldl (\<lambda>acc c. acc * 10 + (uint c - 48)) 0 digits))"

definition handleGetRecent :: "DOEnv \<Rightarrow> Request \<Rightarrow> ChatRoom \<Rightarrow> Response option \<times> ChatRoom" where
  "handleGetRecent env request s =
     (let limit = parseInt (case limitParam request of
                              None \<Rightarrow> js ''10''
                            | Some v \<Rightarrow> if v = [] then js ''10'' else v);
          s1 = s\<lparr>lastAccessedAt := nowAccessed env\<rparr>
      in case saveState (putOk env) s1 of
           None \<Rightarrow> (None, s1)
         | Some s2 \<Rightarrow>
             let recentEntries = (case limit of
                                    None \<Rightarrow> slice 0 (entries s2)
                                  | Some n \<Rightarrow> slice (- n) (entries s2))
             in (Some \<lparr>status = 200, body = RecentEntries recentEntries\<rparr>, s2))"

definition handleClear :: "DOEnv \<Rightarrow> ChatRoom \<Rightarrow> Response option \<times> ChatRoom" where
  "handleClear env s =
     (let s1 = s\<lparr>entries := [], lastAccessedAt := nowAccessed env\<rparr>
      in case saveState (putOk env) s1 of
           None \<Rightarrow> (None, s1)
         | Some s2 \<Rightarrow> (Some \<lparr>status = 200, body = Cleared\<rparr>, s2))"

definition handleGetStats :: "ChatRoom \<Rightarrow> Response option \<times> ChatRoom" where
  "handleGetStats s =
     (Some \<lparr>status = 200,
            body = Stats (length (entries s)) (roomCreatedAt s) (lastAccessedAt s)\<rparr>, s)"

text \<open>The object's \<open>fetch\<close>: routing by path, and any exception turned into a 500.\<close>

definition fetch :: "DOEnv \<Rightarrow> Request \<Rightarrow> ChatRoom \<Rightarrow> Response \<times> ChatRoom" where
  "fetch env request s =
     (let (r, s') =
            (if path request = js ''/append'' then handleAppend env request s
             else if path request = js ''/recent'' then handleGetRecent env request s
             else if path request = js ''/clear'' then handleClear env s
             else if path request = js ''/stats'' then handleGetStats s
             else (Some \<lparr>status = 404, body = PlainText (js ''Not found'')\<rparr>, s))
      in case r of
           Some response \<Rightarrow> (response, s')
         | None \<Rightarrow> (\<lparr>status = 500, body = ErrorJson (js ''Internal server error'')\<rparr>, s'))"

section \<open>Prompts and generation (llmClient.ts)\<close>

text \<open>A thrown value: an \<open>Error\<close> with its message, or something that is no \<open>Error\<close>.\<close>

datatype thrown = Error jsstring | NonError

definition MAX_CONTEXT_LENGTH :: nat where
  "MAX_CONTEXT_LENGTH = 3000"

text \<open>A string that may be missing: its truth value, and its text in a template.\<close>

definition truthy :: "jsstring option \<Rightarrow> bool" where
  "truthy v = (case v of None \<Rightarrow> False | Some u \<Rightarrow> 0 < length u)"

definition textOf :: "jsstring option \<Rightarrow> jsstring" where
  "textOf v = (case v of None \<Rightarrow> js ''undefined'' | Some u \<Rightarrow> u)"

definition buildSummaryPrompt :: "jsstring \<Rightarrow> jsstring option \<Rightarrow> jsstring" where
  "buildSummaryPrompt text sourceUrl =
     (let urlContext = (if truthy sourceUrl
                        then js ''Source URL: '' @ textOf sourceUrl @ js ''\<newline>\<newline>''
                        else [])
      in js ''You are EdgeSummon, an AI assistant that summarizes web content and documents.\<newline>\<newline>Task: Provide a clear, concise summary of the following content.\<newline>\<newline>''
         @ urlContext @ js ''Content to summarize:\<newline>'' @ text
         @ js ''\<newline>\<newline>Provide a well-structured summary with key points. Use bullet points or short paragraphs as appropriate.'')"

text \<open>The body of the loop over the recent context: what one entry adds to the text.\<close>

definition addContextLine :: "jsstring \<Rightarrow> ConversationEntry \<Rightarrow> jsstring" where
  "addContextLine contextText entry =
     (if role entry = User then
        (if entryType entry = Some UrlSummary \<and> truthy (url entry)
         then contextText @ js ''User submitted URL: '' @ textOf (url entry) @ js ''\<newline>''
         else contextText @ js ''User: '' @ substring0 200 (content entry)
              @ (if length (content entry) > 200 then js ''...'' else []) @ js ''\<newline>'')
      else if role entry = Assistant then
        contextText @ js ''Assistant: '' @ substring0 300 (content entry)
        @ (if length (content entry) > 300 then js ''...'' else []) @ js ''\<newline>''
      else contextText)"

definition buildFollowupPrompt :: "jsstring \<Rightarrow> ConversationEntry list \<Rightarrow> jsstring" where
  "buildFollowupPrompt question context =
     (let recentContext = slice (- 5) context;
          contextText = foldl addContextLine [] recentContext
      in js ''You are EdgeSummon, an AI assistant that helps users understand and discuss content from web pages and documents.\<newline>\<newline>Previous conversation context:\<newline>''
         @ contextText @ js ''\<newline>\<newline>Current question: '' @ question
         @ js ''\<newline>\<newline>Provide a helpful, accurate answer based on the conversation context. If the question cannot be answered from the context, say so clearly.'')"

definition truncateText :: "jsstring \<Rightarrow> nat \<Rightarrow> jsstring" where
  "truncateText text maxLength =
     (if length text \<le> maxLength then text
      else substring0 maxLength text @ js ''\<newline>\<newline>[Content truncated due to length...]'')"

text \<open>
  What \<open>ai.run\<close> gives for a prompt: a string, an object with a \<open>response\<close> property
  (a string, or something without \<open>trim\<close>), any other value, or an exception.
\<close>

datatype ai_response = AiString jsstring | AiObject "jsstring option" | AiOther | AiThrows

definition generateSummary ::
  "(jsstring \<Rightarrow> ai_response) \<Rightarrow> jsstring \<Rightarrow> jsstring option \<Rightarrow> thrown + jsstring" where
  "generateSummary ai text sourceUrl =
     (let truncatedText = truncateText text MAX_CONTEXT_LENGTH;
          prompt = buildSummaryPrompt truncatedText sourceUrl
      in case ai prompt of
           AiString response \<Rightarrow> Inr (trim response)
         | AiObject (Some response) \<Rightarrow> Inr (trim response)
         | _ \<Rightarrow> Inl (Error (js ''Failed to generate summary. Please try again.'')))"

definition answerFollowup ::
  "(jsstring \<Rightarrow> ai_response) \<Rightarrow> jsstring \<Rightarrow> ConversationEntry list \<Rightarrow> thrown + jsstring" where
  "answerFollowup ai question context =
     (let prompt = buildFollowupPrompt question context
      in case ai prompt of
           AiString response \<Rightarrow> Inr (trim response)
         | AiObject (Some response) \<Rightarrow> Inr (trim response)
         | _ \<Rightarrow> Inl (Error (js ''Failed to answer question. Please try again.'')))"

section \<open>Fetching a page (textExtraction.ts)\<close>

datatype url_parse = InvalidURL jsstring | ParsedURL jsstring

record HttpResponse =
  responseOk :: bool
  statusLine :: jsstring
  contentTypeHeader :: "jsstring option"
  responseText :: "thrown + jsstring"

datatype fetch_outcome = FetchThrows thrown | FetchResponse HttpResponse

text \<open>
  The network as a page fetch meets it: \<open>new URL(url)\<close> (the \<open>TypeError\<close>'s message, or
  the protocol), and the outcome of the global \<open>fetch\<close>, with
  \<open>statusLine\<close> the text of \<open>${response.status} ${response.statusText}\<close>.
\<close>

record WebEnv =
  parseURL :: "jsstring \<Rightarrow> url_parse"
  httpFetch :: "jsstring \<Rightarrow> fetch_outcome"

text \<open>\<open>s.includes(sub)\<close>\<close>

fun includesStr :: "jsstring \<Rightarrow> jsstring \<Rightarrow> bool" where
  "includesStr [] sub = (sub = [])"
| "includesStr (c # cs) sub = (if take (length sub) (c # cs) = sub then True else includesStr cs sub)"

definition fetchURL :: "WebEnv \<Rightarrow> jsstring \<Rightarrow> thrown + jsstring" where
  "fetchURL web u =
     (let attempt =
            (case parseURL web u of
               InvalidURL m \<Rightarrow> Inl (Error m)
             | ParsedURL protocol \<Rightarrow>
                 if protocol = js ''http:'' \<or> protocol = js ''https:'' then
                   (case httpFetch web u of
                      FetchThrows t \<Rightarrow> Inl t
                    | FetchResponse response \<Rightarrow>
                        if responseOk response then
                          (let contentType = (case contentTypeHeader response of
                                                None \<Rightarrow> []
                                              | Some v \<Rightarrow> v)
                           in if includesStr contentType (js ''text/html'') then responseText response
                              else if includesStr contentType (js ''application/xhtml'')
                              then responseText response
                              else Inl (Error (js ''URL does not return HTML content'')))
                        else Inl (Error (js ''Failed to fetch URL: '' @ statusLine response)))
                 else Inl (Error (js ''Invalid URL protocol. Only HTTP and HTTPS are supported.'')))
      in case attempt of
           Inr html \<Rightarrow> Inr html
         | Inl (Error m) \<Rightarrow> Inl (Error (js ''Failed to fetch URL: '' @ m))
         | Inl NonError \<Rightarrow> Inl (Error (js ''Failed to fetch URL: Unknown error'')))"

text \<open>
  \<open>extractTextFromHTML\<close> is a chain of regular-expression replacements that never
  throws; the orchestration only looks at the length of its result, so it is a parameter.
\<close>

definition fetchAndExtractText ::
  "WebEnv \<Rightarrow> (jsstring \<Rightarrow> jsstring) \<Rightarrow> jsstring \<Rightarrow> thrown + jsstring" where
  "fetchAndExtractText web extractTextFromHTML u =
     (case fetchURL web u of
        Inl t \<Rightarrow> Inl t
      | Inr html \<Rightarrow> Inr (extractTextFromHTML html))"

section \<open>Processing a message (the worker, after the extraction utilities in textExtraction.ts)\<close>

text \<open>
  The worker's calls to the object's \<open>fetch\<close> through the stub; the stub delivers
  every request, one at a time. \<open>processMessage\<close> is only called with a message that
  is not empty (\<open>handleChatAPI\<close> answers 400 otherwise).
\<close>

definition appendEntry ::
  "DOEnv \<Rightarrow> ConversationEntry \<Rightarrow> ChatRoom \<Rightarrow> (thrown + unit) \<times> ChatRoom" where
  "appendEntry env entry s =
     (let (response, s') =
            fetch env \<lparr>path = js ''/append'', requestMethod = POST, limitParam = None,
                       requestBody = Some (toJson entry)\<rparr> s
      in if ok response then (Inr (), s')
         else (Inl (Error (js ''Failed to append entry to conversation'')), s'))"

text \<open>The decimal digits of a number, as a template renders a small non-negative integer.\<close>

fun decimal :: "nat \<Rightarrow> jsstring" where
  "decimal n =
     (if n < 10 then [0x30 + of_nat n]
      else decimal (n div 10) @ [0x30 + of_nat (n mod 10)])"

text \<open>
  An \<open>ok\<close> response of \<open>/recent\<close> always carries the entries; for any other body
  \<open>data.entries\<close> would be undefined.
\<close>

definition getRecentEntries ::
  "DOEnv \<Rightarrow> nat \<Rightarrow> ChatRoom \<Rightarrow> (thrown + ConversationEntry list option) \<times> ChatRoom" where
  "getRecentEntries env limit s =
     (let (response, s') =
            fetch env \<lparr>path = js ''/recent'', requestMethod = GET, limitParam = Some (decimal limit),
                       requestBody = None\<rparr> s
      in if ok response then
           (case body response of
              RecentEntries es \<Rightarrow> (Inr (Some es), s')
            | _ \<Rightarrow> (Inr None, s'))
         else (Inl (Error (js ''Failed to get recent entries'')), s'))"

text \<open>
  What one turn meets outside the worker: the worker's clock when it builds the user
  entry and the assistant entry, the store's side of each of its (at most three) requests,
  the network, the text extraction, and the model.
\<close>

record TurnEnv =
  nowUser :: timestamp
  nowAssistant :: timestamp
  doUser :: DOEnv
  doRecent :: DOEnv
  doAssistant :: DOEnv
  web :: WebEnv
  extractTextFromHTML :: "jsstring \<Rightarrow> jsstring"
  aiRun :: "jsstring \<Rightarrow> ai_response"

text \<open>The calls to generation that a turn made, with their arguments.\<close>

datatype generation_call =
    SummaryCall jsstring "jsstring option"
  | FollowupCall jsstring "ConversationEntry list"

record TurnResult =
  outcome :: "thrown + jsstring"
  room :: ChatRoom
  generationCalls :: "generation_call list"

text \<open>\<open>error instanceof Error ? error.message : fallback\<close>\<close>

definition messageOr :: "thrown \<Rightarrow> jsstring \<Rightarrow> jsstring" where
  "messageOr t fallback = (case t of Error m \<Rightarrow> m | NonError \<Rightarrow> fallback)"

text \<open>The end of \<open>processMessage\<close>: store the assistant's response, return the reply.\<close>

definition storeAssistant ::
  "TurnEnv \<Rightarrow> jsstring \<Rightarrow> ConversationEntry \<Rightarrow> generation_call list \<Rightarrow> ChatRoom \<Rightarrow> TurnResult" where
  "storeAssistant env reply assistantEntry calls s =
     (case appendEntry (doAssistant env) assistantEntry s of
        (Inl err, s') \<Rightarrow> \<lparr>outcome = Inl err, room = s', generationCalls = calls\<rparr>
      | (Inr _, s') \<Rightarrow> \<lparr>outcome = Inr reply, room = s', generationCalls = calls\<rparr>)"

definition noContextReply :: jsstring where
  "noContextReply =
     js ''I don't have any previous context to answer your question. Please provide a URL or text to summarize first.''"

definition processMessage :: "TurnEnv \<Rightarrow> jsstring \<Rightarrow> ChatRoom \<Rightarrow> TurnResult" where
  "processMessage env message s =
     (case determineMessageType message of
        URL \<Rightarrow>
          (let u = trim message;
               userEntry = \<lparr>role = User, content = js ''Submitted URL for summarization: '' @ u,
                            entryType = Some UrlSummary, url = Some u, createdAt = nowUser env\<rparr>
           in case appendEntry (doUser env) userEntry s of
                (Inl err, s1) \<Rightarrow> \<lparr>outcome = Inl err, room = s1, generationCalls = []\<rparr>
              | (Inr _, s1) \<Rightarrow>
                  (let (attempt, calls) =
                         (case fetchAndExtractText (web env) (extractTextFromHTML env) u of
                            Inl err \<Rightarrow> (Inl err, [])
                          | Inr extractedText \<Rightarrow>
                              if extractedText = [] \<or> length (trim extractedText) < 50
                              then (Inl (Error (js ''Could not extract meaningful content from the URL'')), [])
                              else (generateSummary (aiRun env) extractedText (Some u),
                                    [SummaryCall extractedText (Some u)]))
                   in case attempt of
                        Inr reply \<Rightarrow>
                          storeAssistant env reply
                            \<lparr>role = Assistant, content = reply, entryType = Some UrlSummary,
                             url = Some u, createdAt = nowAssistant env\<rparr> calls s1
                      | Inl err \<Rightarrow>
                          (let reply = js ''Sorry, I couldn't fetch or summarize that URL. ''
                                       @ messageOr err (js ''Please check the URL and try again.'')
                           in storeAssistant env reply
                                \<lparr>role = Assistant, content = reply, entryType = Some UrlSummary,
                                 url = None, createdAt = nowAssistant env\<rparr> calls s1)))
      | CONTENT \<Rightarrow>
          (let userEntry = \<lparr>role = User, content = message, entryType = Some RawSummary,
                            url = None, createdAt = nowUser env\<rparr>
           in case appendEntry (doUser env) userEntry s of
                (Inl err, s1) \<Rightarrow> \<lparr>outcome = Inl err, room = s1, generationCalls = []\<rparr>
              | (Inr _, s1) \<Rightarrow>
                  (case generateSummary (aiRun env) message None of
                     Inr reply \<Rightarrow>
                       storeAssistant env reply
                         \<lparr>role = Assistant, content = reply, entryType = Some RawSummary,
                          url = None, createdAt = nowAssistant env\<rparr>
                         [SummaryCall message None] s1
                   | Inl err \<Rightarrow>
                       (let reply = js ''Sorry, I couldn't generate a summary. ''
                                    @ messageOr err (js ''Please try again.'')
                        in storeAssistant env reply
                             \<lparr>role = Assistant, content = reply, entryType = None,
                              url = None, createdAt = nowAssistant env\<rparr>
                             [SummaryCall message None] s1)))
      | FOLLOWUP \<Rightarrow>
          (let userEntry = \<lparr>role = User, content = message, entryType = Some Followup,
                            url = None, createdAt = nowUser env\<rparr>
           in case appendEntry (doUser env) userEntry s of
                (Inl err, s1) \<Rightarrow> \<lparr>outcome = Inl err, room = s1, generationCalls = []\<rparr>
              | (Inr _, s1) \<Rightarrow>
                  (let (fetched, s2) = getRecentEntries (doRecent env) 10 s1;
                       (attempt, calls) =
                         (case fetched of
                            Inl err \<Rightarrow> (Inl err, [])
                          | Inr None \<Rightarrow>
                              (Inl (Error (js ''Cannot read properties of undefined (reading 'length')'')), [])
                          | Inr (Some context) \<Rightarrow>
                              if length context = 0 then (Inr noContextReply, [])
                              else (answerFollowup (aiRun env) message context,
                                    [FollowupCall message context]))
                   in case attempt of
                        Inr reply \<Rightarrow>
                          storeAssistant env reply
                            \<lparr>role = Assistant, content = reply, entryType = Some Followup,
                             url = None, createdAt = nowAssistant env\<rparr> calls s2
                      | Inl err \<Rightarrow>
                          (let reply = js ''Sorry, I couldn't answer your question. ''
                                       @ messageOr err (js ''Please try again.'')
                           in storeAssistant env reply
                                \<lparr>role = Assistant, content = reply, entryType = None,
                                 url = None, createdAt = nowAssistant env\<rparr> calls s2))))"

text \<open>A session served one message after another, each turn with its own environment.\<close>

fun processAll :: "(TurnEnv \<times> jsstring) list \<Rightarrow> ChatRoom \<Rightarrow> ChatRoom" where
  "processAll [] s = s"
| "processAll ((env, message) # rest) s = processAll rest (room (processMessage env message s))"

section \<open>The context window as the specification words it\<close>

text \<open>A text cut to \<open>n\<close> characters, with the ellipsis marker when it was cut.\<close>

definition truncated :: "nat \<Rightarrow> jsstring \<Rightarrow> jsstring" where
  "truncated n text = (if length text > n then take n text @ js ''...'' else text)"

definition renderEntry :: "ConversationEntry \<Rightarrow> jsstring" where
  "renderEntry e =
     (case role e of
        User \<Rightarrow>
          (if entryType e = Some UrlSummary \<and> truthy (url e)
           then js ''User submitted URL: '' @ textOf (url e) @ js ''\<newline>''
           else js ''User: '' @ truncated 200 (content e) @ js ''\<newline>'')
      | Assistant \<Rightarrow> js ''Assistant: '' @ truncated 300 (content e) @ js ''\<newline>''
      | System \<Rightarrow> [])"

section \<open>What a completed turn leaves behind\<close>

text \<open>The model's answer, when it is text, is not empty once trimmed.\<close>

definition nonEmptyAnswer :: "ai_response \<Rightarrow> bool" where
  "nonEmptyAnswer r =
     (case r of
        AiString t \<Rightarrow> 0 < length (trim t)
      | AiObject (Some t) \<Rightarrow> 0 < length (trim t)
      | _ \<Rightarrow> True)"

text \<open>
  The turn returned \<open>reply\<close>, and the log is the old log followed by a user entry and
  an assistant entry whose content is the reply and whose \<open>url\<close> is \<open>source\<close>.
\<close>

definition turnLogged :: "ChatRoom \<Rightarrow> TurnResult \<Rightarrow> jsstring \<Rightarrow> jsstring option \<Rightarrow> bool" where
  "turnLogged s r reply source =
     (case outcome r of
        Inl _ \<Rightarrow> False
      | Inr returned \<Rightarrow>
          returned = reply \<and>
          take (length (entries s)) (entries (room r)) = entries s \<and>
          (case drop (length (entries s)) (entries (room r)) of
             [u, a] \<Rightarrow> role u = User \<and> role a = Assistant \<and> content a = reply \<and>
                        url a = source
           | _ \<Rightarrow> False))"

section \<open>Example sessions\<close>

text \<open>A store that answers at instant \<open>t\<close> and whose write completes.\<close>

definition storeAt :: "timestamp \<Rightarrow> DOEnv" where
  "storeAt t = \<lparr>nowCreated = t, nowAccessed = t, putOk = True\<rparr>"

definition roomWith :: "ConversationEntry list \<Rightarrow> ChatRoom" where
  "roomWith es =
     \<lparr>entries = es, roomCreatedAt = 0, lastAccessedAt = 7,
      storage = Some \<lparr>storedEntries = es, storedCreatedAt = 0, storedLastAccessedAt = 7\<rparr>\<rparr>"

definition pairLog :: "ConversationEntry list" where
  "pairLog =
     [\<lparr>role = User, content = js ''Submitted URL for summarization: https://x.com'',
       entryType = Some UrlSummary, url = Some (js ''https://x.com''), createdAt = 50\<rparr>,
      \<lparr>role = Assistant, content = js ''A page about x.'',
       entryType = Some UrlSummary, url = Some (js ''https://x.com''), createdAt = 52\<rparr>]"

definition threeLog :: "ConversationEntry list" where
  "threeLog =
     pairLog @ [\<lparr>role = User, content = js ''Tell me more'', entryType = Some Followup,
                 url = None, createdAt = 60\<rparr>]"

text \<open>
  A site that serves \<open>page\<close> with the given content type, and a turn against it in
  which the model always gives \<open>answer\<close> and every write to storage completes.
\<close>

definition exampleWeb :: "jsstring \<Rightarrow> jsstring \<Rightarrow> WebEnv" where
  "exampleWeb contentType page =
     \<lparr>parseURL = (\<lambda>u. ParsedURL (js ''https:'')),
      httpFetch = (\<lambda>u. FetchResponse
                     \<lparr>responseOk = True, statusLine = js ''200 OK'',
                      contentTypeHeader = Some contentType, responseText = Inr page\<rparr>)\<rparr>"

definition exampleEnv :: "WebEnv \<Rightarrow> ai_response \<Rightarrow> TurnEnv" where
  "exampleEnv site answer =
     \<lparr>nowUser = 100, nowAssistant = 103, doUser = storeAt 101, doRecent = storeAt 102,
      doAssistant = storeAt 104, web = site, extractTextFromHTML = (\<lambda>html. html),
      aiRun = (\<lambda>prompt. answer)\<rparr>"

definition longPage :: WebEnv where
  "longPage = exampleWeb (js ''text/html; charset=utf-8'') (replicate 60 0x61)"

definition shortPage :: WebEnv where
  "shortPage = exampleWeb (js ''text/html; charset=utf-8'') (replicate 30 0x61)"

definition pdfPage :: WebEnv where
  "pdfPage = exampleWeb (js ''application/pdf'') (replicate 60 0x61)"

definition recentRequest :: "jsstring \<Rightarrow> Request" where
  "recentRequest limit =
     \<lparr>path = js ''/recent'', requestMethod = GET, limitParam = Some limit, requestBody = None\<rparr>"

definition appendRequest :: "EntryJson \<Rightarrow> Request" where
  "appendRequest entry =
     \<lparr>path = js ''/append'', requestMethod = POST, limitParam = None, requestBody = Some entry\<rparr>"

definition statsRequest :: Request where
  "statsRequest =
     \<lparr>path = js ''/stats'', requestMethod = GET, limitParam = None, requestBody = None\<rparr>"

definition clearRequest :: Request where
  "clearRequest =
     \<lparr>path = js ''/clear'', requestMethod = POST, limitParam = None, requestBody = None\<rparr>"

definition stampedEntry :: EntryJson where
  "stampedEntry =
     \<lparr>jsonRole = Some User, jsonContent = Some (js ''hi''), jsonType = None, jsonUrl = None,
      jsonCreatedAt = Some 5\<rparr>"

definition unstampedEntry :: EntryJson where
  "unstampedEntry =
     \<lparr>jsonRole = Some User, jsonContent = Some (js ''hi''), jsonType = None, jsonUrl = None,
      jsonCreatedAt = None\<rparr>"

definition noRoleEntry :: EntryJson where
  "noRoleEntry =
     \<lparr>jsonRole = None, jsonContent = Some (js ''hi''), jsonType = None, jsonUrl = None,
      jsonCreatedAt = None\<rparr>"

definition emptyReplyEntry :: ConversationEntry where
  "emptyReplyEntry =
     \<lparr>role = Assistant, content = [], entryType = Some Followup, url = None, createdAt = 103\<rparr>"

section \<open>Facts about strings and the classifier\<close>

lemma unat_lower_minus:
  "(0x61::jschar) \<le> c \<Longrightarrow> c \<le> 0x7A \<Longrightarrow> unat (c - 0x20) = unat c - 0x20"
  by (simp add: unat_sub word_le_nat_alt)

lemma unat_upper_plus:
  "(0x41::jschar) \<le> c \<Longrightarrow> c \<le> 0x5A \<Longrightarrow> unat (c + 0x20) = unat c + 0x20"
  by (simp add: unat_word_ariths word_le_nat_alt)

lemma canonicalize_eq_iff:
  "\<not> isUpperAscii p \<Longrightarrow> (canonicalize p = canonicalize c) = (toLowerAscii c = p)"
  unfolding canonicalize_def toLowerAscii_def isUpperAscii_def
  by (auto simp: word_unat_eq_iff unat_lower_minus unat_upper_plus)
     (auto simp: word_le_nat_alt)

lemma litCI_iff:
  "\<forall>p\<in>set ps. \<not> isUpperAscii p \<Longrightarrow>
   (litCI ps s = Some r) =
   (map toLowerAscii (take (length ps) s) = ps \<and> r = drop (length ps) s)"
proof (induction ps s rule: litCI.induct)
  case (1 s)
  then show ?case by auto
next
  case (2 p ps)
  then show ?case by auto
next
  case (3 p ps c cs)
  then show ?case by (auto simp: canonicalize_eq_iff)
qed

lemma matchesCI_iff:
  assumes "\<forall>p\<in>set ps. \<not> isUpperAscii p"
  shows "matchesCI ps s = (map toLowerAscii (take (length ps) s) = ps)"
proof (cases "litCI ps s")
  case None
  with litCI_iff [of ps s "drop (length ps) s"] assms show ?thesis
    by (simp add: matchesCI_def)
next
  case (Some r)
  with litCI_iff [of ps s r] assms show ?thesis
    by (simp add: matchesCI_def)
qed

lemma js_chars_not_upper:
  "\<forall>p\<in>set (js ''http''). \<not> isUpperAscii p"
  "\<forall>p\<in>set (js ''s''). \<not> isUpperAscii p"
  "\<forall>p\<in>set (js ''://''). \<not> isUpperAscii p"
  by (simp_all add: js_def isUpperAscii_def)

lemma take_map_split:
  assumes "length a = m"
  shows "(map f (take (m + n) t) = a @ b) =
         (map f (take m t) = a \<and> map f (take n (drop m t)) = b)"
proof (cases "m \<le> length t")
  case True
  then have "length (map f (take m t)) = length a" using assms by simp
  then show ?thesis by (simp add: take_add)
next
  case False
  then have short: "length t < m" by simp
  have "map f t \<noteq> a @ b"
  proof
    assume "map f t = a @ b"
    then have "length (map f t) = length (a @ b)" by simp
    with short assms show False by simp
  qed
  moreover have "map f t \<noteq> a"
  proof
    assume "map f t = a"
    then have "length (map f t) = length a" by simp
    with short assms show False by simp
  qed
  ultimately show ?thesis using short by simp
qed

lemma urlPattern_iff:
  "urlPattern t = (startsWithScheme (js ''http://'') t \<or> startsWithScheme (js ''https://'') t)"
proof -
  have len: "length (js ''http'') = 4" "length (js ''s'') = 1" "length (js ''://'') = 3"
    by (simp_all add: js_def)
  have a: "startsWithScheme (js ''http://'') t =
      (map toLowerAscii (take 4 t) = js ''http'' \<and>
       map toLowerAscii (take 3 (drop 4 t)) = js ''://'')"
  proof -
    have l: "length (js ''http://'') = 4 + 3" by (simp add: js_def)
    have e: "js ''http://'' = js ''http'' @ js ''://''" by (simp add: js_def)
    have "startsWithScheme (js ''http://'') t =
          (map toLowerAscii (take (4 + 3) t) = js ''http'' @ js ''://'')"
      unfolding startsWithScheme_def l using e by simp
    also have "\<dots> = (map toLowerAscii (take 4 t) = js ''http'' \<and>
       map toLowerAscii (take 3 (drop 4 t)) = js ''://'')"
      by (rule take_map_split) (simp add: js_def)
    finally show ?thesis .
  qed
  have b: "startsWithScheme (js ''https://'') t =
      (map toLowerAscii (take 4 t) = js ''http'' \<and>
       map toLowerAscii (take 1 (drop 4 t)) = js ''s'' \<and>
       map toLowerAscii (take 3 (drop 5 t)) = js ''://'')"
  proof -
    have l: "length (js ''https://'') = 4 + (1 + 3)" by (simp add: js_def)
    have e: "js ''https://'' = js ''http'' @ (js ''s'' @ js ''://'')" by (simp add: js_def)
    have "startsWithScheme (js ''https://'') t =
          (map toLowerAscii (take (4 + (1 + 3)) t) = js ''http'' @ (js ''s'' @ js ''://''))"
      unfolding startsWithScheme_def l using e by simp
    also have "\<dots> = (map toLowerAscii (take 4 t) = js ''http'' \<and>
       map toLowerAscii (take (1 + 3) (drop 4 t)) = js ''s'' @ js ''://'')"
      by (rule take_map_split) (simp add: js_def)
    also have "(map toLowerAscii (take (1 + 3) (drop 4 t)) = js ''s'' @ js ''://'') =
       (map toLowerAscii (take 1 (drop 4 t)) = js ''s'' \<and>
        map toLowerAscii (take 3 (drop 1 (drop 4 t))) = js ''://'')"
      by (rule take_map_split) (simp add: js_def)
    finally show ?thesis by simp
  qed
  show ?thesis
  proof (cases "litCI (js ''http'') t")
    case None
    with litCI_iff [OF js_chars_not_upper(1), of t "drop 4 t"] len
    have "map toLowerAscii (take 4 t) \<noteq> js ''http''" by simp
    with None show ?thesis by (simp add: urlPattern_def a b)
  next
    case (Some r)
    with litCI_iff [OF js_chars_not_upper(1), of t r] len
    have h: "map toLowerAscii (take 4 t) = js ''http''" and r: "r = drop 4 t" by simp_all
    show ?thesis
    proof (cases "litCI (js ''s'') r")
      case None
      with litCI_iff [OF js_chars_not_upper(2), of r "drop 1 r"] len
      have "map toLowerAscii (take 1 r) \<noteq> js ''s''" by simp
      with Some None h r show ?thesis
        by (simp add: urlPattern_def a b matchesCI_iff [OF js_chars_not_upper(3)] len)
    next
      case inner: (Some r')
      with litCI_iff [OF js_chars_not_upper(2), of r r'] len
      have s: "map toLowerAscii (take 1 r) = js ''s''" and r': "r' = drop 1 r" by simp_all
      with Some inner h r show ?thesis
        by (auto simp: urlPattern_def a b matchesCI_iff [OF js_chars_not_upper(3)] len)
    qed
  qed
qed

lemma filter_dropWhile_disjoint:
  "(\<And>c. Q c \<Longrightarrow> \<not> P c) \<Longrightarrow> filter P (dropWhile Q s) = filter P s"
  by (induction s) auto

lemma sentenceEnding_not_space: "isWhiteSpace c \<Longrightarrow> \<not> sentenceEnding c"
  by (auto simp: isWhiteSpace_def sentenceEnding_def)

lemma length_filter_rev: "length (filter P (rev s)) = length (filter P s)"
  by (simp flip: rev_filter)

lemma count_sentenceEnding_trim:
  "length (filter sentenceEnding (trim s)) = length (filter sentenceEnding s)"
proof -
  have "length (filter sentenceEnding (trim s)) =
        length (filter sentenceEnding (dropWhile isWhiteSpace (rev (dropWhile isWhiteSpace s))))"
    unfolding trim_def by (rule length_filter_rev)
  also have "\<dots> = length (filter sentenceEnding (rev (dropWhile isWhiteSpace s)))"
    by (simp add: filter_dropWhile_disjoint sentenceEnding_not_space)
  also have "\<dots> = length (filter sentenceEnding (dropWhile isWhiteSpace s))"
    by (rule length_filter_rev)
  also have "\<dots> = length (filter sentenceEnding s)"
    by (simp add: filter_dropWhile_disjoint sentenceEnding_not_space)
  finally show ?thesis .
qed

lemma endsWith_question_iff: "endsWith t (js ''?'') = endsWithQuestionMark t"
proof (cases t rule: rev_cases)
  case Nil
  then show ?thesis by (simp add: endsWith_def endsWithQuestionMark_def js_def)
next
  case (snoc ys y)
  then show ?thesis by (auto simp: endsWith_def endsWithQuestionMark_def js_def)
qed

lemma determineMessageType_classify: "determineMessageType text = classify text"
  by (simp add: determineMessageType_def classify_def isURL_def urlPattern_iff
      isLikelyContentToSummarize_def endsWith_question_iff count_sentenceEnding_trim Let_def)

section \<open>Facts about the store and the prompt\<close>

lemma slice_neg: "0 < n \<Longrightarrow> slice (- int n) xs = drop (length xs - n) xs"
  by (auto simp: slice_def Let_def max_def nat_diff_distrib' nat_eq_iff)

lemma slice_zero: "slice 0 xs = xs"
  by (simp add: slice_def)

lemma slice_last_five: "slice (- 5) xs = drop (length xs - 5) xs"
  using slice_neg [of 5 xs] by simp

lemma saveState_entries: "saveState w s = Some s' \<Longrightarrow> entries s' = entries s \<and> lastAccessedAt s' = lastAccessedAt s"
  by (auto simp: saveState_def split: if_splits)

lemma handleAppend_valid:
  assumes "requestMethod request = POST" "requestBody request = Some entry"
    "jsonRole entry = Some r" "jsonContent entry = Some c" "c \<noteq> []"
  shows "entries (snd (handleAppend env request s)) =
           entries s @ [\<lparr>role = r, content = c, entryType = jsonType entry, url = jsonUrl entry,
                          createdAt = (case jsonCreatedAt entry of
                                         None \<Rightarrow> nowCreated env | Some t \<Rightarrow> t)\<rparr>]"
    and "lastAccessedAt (snd (handleAppend env request s)) = nowAccessed env"
    and "putOk env \<Longrightarrow> fst (handleAppend env request s) =
           Some \<lparr>status = 200, body = AppendOk (Suc (length (entries s)))\<rparr>"
    and "\<not> putOk env \<Longrightarrow> fst (handleAppend env request s) = None"
  using assms by (simp_all add: handleAppend_def saveState_def Let_def)

lemma handleAppend_invalid:
  assumes "requestMethod request = POST" "requestBody request = Some entry"
    "jsonRole entry = None \<or> jsonContent entry = None \<or> jsonContent entry = Some []"
  shows "handleAppend env request s =
           (Some \<lparr>status = 400,
                  body = ErrorJson (js ''Invalid entry: role and content are required'')\<rparr>, s)"
  using assms by (auto simp: handleAppend_def split: option.splits)

lemma handleAppend_content:
  "\<forall>x\<in>set (entries s). content x \<noteq> [] \<Longrightarrow>
   \<forall>x\<in>set (entries (snd (handleAppend env request s))). content x \<noteq> []"
  by (auto simp: handleAppend_def saveState_def Let_def split: option.splits if_splits)

lemma handleGetRecent_state:
  "entries (snd (handleGetRecent env request s)) = entries s"
  "lastAccessedAt (snd (handleGetRecent env request s)) = nowAccessed env"
  by (simp_all add: handleGetRecent_def saveState_def Let_def)

lemma handleClear_state:
  "entries (snd (handleClear env s)) = []"
  "lastAccessedAt (snd (handleClear env s)) = nowAccessed env"
  by (simp_all add: handleClear_def saveState_def Let_def)

lemma fetch_content:
  assumes "\<forall>x\<in>set (entries s). content x \<noteq> []"
  shows "\<forall>x\<in>set (entries (snd (fetch env request s))). content x \<noteq> []"
proof -
  have "entries (snd (fetch env request s)) =
        (if path request = js ''/append'' then entries (snd (handleAppend env request s))
         else if path request = js ''/recent'' then entries (snd (handleGetRecent env request s))
         else if path request = js ''/clear'' then entries (snd (handleClear env s))
         else entries s)"
    by (simp add: fetch_def handleGetStats_def split: prod.splits option.splits)
  with assms handleAppend_content [OF assms, of env request] show ?thesis
    by (simp add: handleGetRecent_state handleClear_state)
qed

lemma appendEntry_accepted:
  assumes "content e \<noteq> []" "putOk env"
  shows "appendEntry env e s =
           (Inr (), s\<lparr>entries := entries s @ [e], lastAccessedAt := nowAccessed env,
                       storage := Some \<lparr>storedEntries = entries s @ [e],
                                         storedCreatedAt = roomCreatedAt s,
                                         storedLastAccessedAt = nowAccessed env\<rparr>\<rparr>)"
  using assms
  by (simp add: appendEntry_def fetch_def handleAppend_def toJson_def saveState_def ok_def Let_def)

lemma appendEntry_rejected:
  assumes "content e = []"
  shows "appendEntry env e s = (Inl (Error (js ''Failed to append entry to conversation'')), s)"
  using assms
  by (simp add: appendEntry_def fetch_def handleAppend_def toJson_def ok_def Let_def)

lemma appendEntry_error:
  "fst (appendEntry env e s) = Inl err \<Longrightarrow> err = Error (js ''Failed to append entry to conversation'')"
  by (auto simp: appendEntry_def Let_def split: prod.splits if_splits)

lemma getRecentEntries_entries: "entries (snd (getRecentEntries env n s)) = entries s"
  by (simp add: getRecentEntries_def fetch_def handleGetRecent_def saveState_def Let_def js_def
      split: prod.splits option.splits body.splits)

lemma truncated_substring:
  "substring0 n t @ (if length t > n then js ''...'' else []) = truncated n t"
  by (simp add: substring0_def truncated_def)

lemma addContextLine_render: "addContextLine acc e = acc @ renderEntry e"
  by (cases "role e") (simp_all add: addContextLine_def renderEntry_def flip: truncated_substring)

lemma foldl_addContextLine: "foldl addContextLine acc es = acc @ concat (map renderEntry es)"
  by (induction es arbitrary: acc) (simp_all add: addContextLine_render)

section \<open>Facts about a turn\<close>

lemma js_not_empty [simp]: "js (c # cs) \<noteq> []" "js (c # cs) @ t \<noteq> []"
  by (simp_all add: js_def)

lemma turnLoggedI:
  assumes "outcome r = Inr reply" "entries (room r) = entries s @ [u, a]"
    "role u = User" "role a = Assistant" "content a = reply" "url a = source"
  shows "turnLogged s r reply source"
  using assms by (simp add: turnLogged_def)

lemma turnLogged_length:
  assumes "turnLogged s r reply source"
  shows "length (entries (room r)) = length (entries s) + 2"
proof -
  from assms obtain u a where d: "drop (length (entries s)) (entries (room r)) = [u, a]"
    by (auto simp: turnLogged_def split: sum.splits list.splits)
  have "length (drop (length (entries s)) (entries (room r))) = 2"
    unfolding d by simp
  then show ?thesis by simp
qed

lemma storeAssistant_logged:
  assumes "entries s1 = entries s @ [u]" "role u = User" "role a = Assistant"
    "content a = reply" "reply \<noteq> []" "putOk (doAssistant env)" "url a = source"
  shows "turnLogged s (storeAssistant env reply a calls s1) reply source"
proof -
  from assms have "content a \<noteq> []" by simp
  from appendEntry_accepted [OF this assms(6), of s1] assms show ?thesis
    by (simp add: storeAssistant_def turnLogged_def)
qed

lemma storeAssistant_error:
  "outcome (storeAssistant env reply a calls s1) = Inl e \<Longrightarrow>
   e = Error (js ''Failed to append entry to conversation'')"
  using appendEntry_error [of "doAssistant env" a s1 e]
  by (auto simp: storeAssistant_def split: prod.splits sum.splits)

lemma generateSummary_error:
  "generateSummary ai text src = Inl err \<Longrightarrow>
   err = Error (js ''Failed to generate summary. Please try again.'')"
  by (auto simp: generateSummary_def Let_def split: ai_response.splits option.splits)

lemma generateSummary_nonempty:
  "generateSummary ai text src = Inr reply \<Longrightarrow> \<forall>p. nonEmptyAnswer (ai p) \<Longrightarrow> reply \<noteq> []"
  by (auto simp: generateSummary_def nonEmptyAnswer_def Let_def
      split: ai_response.splits option.splits)

lemma answerFollowup_error:
  "answerFollowup ai q ctx = Inl err \<Longrightarrow>
   err = Error (js ''Failed to answer question. Please try again.'')"
  by (auto simp: answerFollowup_def Let_def split: ai_response.splits option.splits)

lemma answerFollowup_nonempty:
  "answerFollowup ai q ctx = Inr reply \<Longrightarrow> \<forall>p. nonEmptyAnswer (ai p) \<Longrightarrow> reply \<noteq> []"
  by (auto simp: answerFollowup_def nonEmptyAnswer_def Let_def
      split: ai_response.splits option.splits)

lemma fetchURL_error:
  "fetchURL w u = Inl err \<Longrightarrow> \<exists>m. err = Error (js ''Failed to fetch URL: '' @ m)"
proof -
  have unknown: "js ''Failed to fetch URL: Unknown error'' =
                 js ''Failed to fetch URL: '' @ js ''Unknown error''"
    by (simp add: js_def)
  assume "fetchURL w u = Inl err"
  then show ?thesis
    unfolding fetchURL_def Let_def unknown
    by (auto split: sum.splits thrown.splits)
qed

lemma fetchAndExtractText_error:
  "fetchAndExtractText w ex u = Inl err \<Longrightarrow> \<exists>m. err = Error (js ''Failed to fetch URL: '' @ m)"
  using fetchURL_error [of w u err]
  by (auto simp: fetchAndExtractText_def split: sum.splits)

lemma fetchURL_not_html:
  assumes "parseURL w u = ParsedURL (js ''https:'')" "httpFetch w u = FetchResponse response"
    "responseOk response" "contentTypeHeader response = Some t"
    "\<not> includesStr t (js ''text/html'')" "\<not> includesStr t (js ''application/xhtml'')"
  shows "fetchURL w u = Inl (Error (js ''Failed to fetch URL: URL does not return HTML content''))"
  using assms by (simp add: fetchURL_def Let_def js_def)

lemma url_fetch_failure:
  assumes "determineMessageType message = URL" "putOk (doUser env)" "putOk (doAssistant env)"
    "fetchAndExtractText (web env) (extractTextFromHTML env) (trim message) = Inl err"
  shows "turnLogged s (processMessage env message s)
           (js ''Sorry, I couldn't fetch or summarize that URL. ''
            @ messageOr err (js ''Please check the URL and try again.'')) None"
  using assms
  by (simp add: processMessage_def Let_def appendEntry_accepted storeAssistant_def turnLogged_def)

lemma url_extraction_short:
  assumes "determineMessageType message = URL" "putOk (doUser env)" "putOk (doAssistant env)"
    "fetchAndExtractText (web env) (extractTextFromHTML env) (trim message) = Inr text"
    "text = [] \<or> length (trim text) < 50"
  shows "turnLogged s (processMessage env message s)
           (js ''Sorry, I couldn't fetch or summarize that URL. Could not extract meaningful content from the URL'') None"
proof -
  have split: "js ''Sorry, I couldn't fetch or summarize that URL. Could not extract meaningful content from the URL'' =
     js ''Sorry, I couldn't fetch or summarize that URL. '' @ js ''Could not extract meaningful content from the URL''"
    by (simp add: js_def)
  show ?thesis
    unfolding split using assms
    by (simp add: processMessage_def Let_def appendEntry_accepted storeAssistant_def
        turnLogged_def messageOr_def)
qed

lemma url_generation_failure:
  assumes "determineMessageType message = URL" "putOk (doUser env)" "putOk (doAssistant env)"
    "fetchAndExtractText (web env) (extractTextFromHTML env) (trim message) = Inr text"
    "text \<noteq> []" "50 \<le> length (trim text)"
    "generateSummary (aiRun env) text (Some (trim message)) = Inl err"
  shows "turnLogged s (processMessage env message s)
           (js ''Sorry, I couldn't fetch or summarize that URL. Failed to generate summary. Please try again.'') None"
proof -
  have split: "js ''Sorry, I couldn't fetch or summarize that URL. Failed to generate summary. Please try again.'' =
     js ''Sorry, I couldn't fetch or summarize that URL. '' @ js ''Failed to generate summary. Please try again.''"
    by (simp add: js_def)
  from assms(7) have err: "err = Error (js ''Failed to generate summary. Please try again.'')"
    by (rule generateSummary_error)
  show ?thesis
    unfolding split using assms err
    by (simp add: processMessage_def Let_def appendEntry_accepted storeAssistant_def
        turnLogged_def messageOr_def)
qed

lemma url_success:
  assumes "determineMessageType message = URL" "putOk (doUser env)" "putOk (doAssistant env)"
    "fetchAndExtractText (web env) (extractTextFromHTML env) (trim message) = Inr text"
    "text \<noteq> []" "50 \<le> length (trim text)"
    "generateSummary (aiRun env) text (Some (trim message)) = Inr reply" "reply \<noteq> []"
  shows "turnLogged s (processMessage env message s) reply (Some (trim message))"
  using assms
  by (simp add: processMessage_def Let_def appendEntry_accepted storeAssistant_def turnLogged_def)

lemma processMessage_error:
  assumes "outcome (processMessage env message s) = Inl e"
  shows "e = Error (js ''Failed to append entry to conversation'')"
proof -
  have user: "appendEntry (doUser env) x s = (Inl err, s1) \<Longrightarrow>
      err = Error (js ''Failed to append entry to conversation'')" for x s1 err
    using appendEntry_error [of "doUser env" x s err] by simp
  show ?thesis
    using assms
    by (cases "determineMessageType message")
       (auto simp: processMessage_def Let_def split: prod.splits sum.splits if_splits option.splits
         dest: user storeAssistant_error)
qed

lemma content_turn_logged:
  assumes "determineMessageType message = CONTENT" "message \<noteq> []"
    "putOk (doUser env)" "putOk (doAssistant env)" "\<forall>p. nonEmptyAnswer (aiRun env p)"
  shows "\<exists>reply source. turnLogged s (processMessage env message s) reply source"
proof (cases "generateSummary (aiRun env) message None")
  case (Inl err)
  with assms have "turnLogged s (processMessage env message s)
      (js ''Sorry, I couldn't generate a summary. '' @ messageOr err (js ''Please try again.'')) None"
    by (simp add: processMessage_def Let_def appendEntry_accepted storeAssistant_def turnLogged_def)
  then show ?thesis by blast
next
  case (Inr reply)
  from Inr assms(5) have "reply \<noteq> []" by (rule generateSummary_nonempty)
  with Inr assms have "turnLogged s (processMessage env message s) reply None"
    by (simp add: processMessage_def Let_def appendEntry_accepted storeAssistant_def turnLogged_def)
  then show ?thesis by blast
qed

lemma url_turn_logged:
  assumes "determineMessageType message = URL"
    "putOk (doUser env)" "putOk (doAssistant env)" "\<forall>p. nonEmptyAnswer (aiRun env p)"
  shows "\<exists>reply source. turnLogged s (processMessage env message s) reply source"
proof (cases "fetchAndExtractText (web env) (extractTextFromHTML env) (trim message)")
  case (Inl err)
  from url_fetch_failure [OF assms(1-3) this] show ?thesis by blast
next
  case (Inr extracted)
  show ?thesis
  proof (cases "extracted = [] \<or> length (trim extracted) < 50")
    case True
    from url_extraction_short [OF assms(1-3) Inr True] show ?thesis by blast
  next
    case False
    then have long: "extracted \<noteq> []" "50 \<le> length (trim extracted)" by simp_all
    show ?thesis
    proof (cases "generateSummary (aiRun env) extracted (Some (trim message))")
      case (Inl err)
      from url_generation_failure [OF assms(1-3) Inr long this] show ?thesis by blast
    next
      case inner: (Inr reply)
      from inner assms(4) have "reply \<noteq> []" by (rule generateSummary_nonempty)
      from url_success [OF assms(1-3) Inr long inner this] show ?thesis by blast
    qed
  qed
qed

lemma followup_turn_logged:
  assumes "determineMessageType message = FOLLOWUP" "message \<noteq> []"
    "putOk (doUser env)" "putOk (doAssistant env)" "\<forall>p. nonEmptyAnswer (aiRun env p)"
  shows "\<exists>reply source. turnLogged s (processMessage env message s) reply source"
proof -
  define userEntry where "userEntry =
    \<lparr>role = User, content = message, entryType = Some Followup, url = None,
     createdAt = nowUser env\<rparr>"
  obtain e1 s1 where a1: "appendEntry (doUser env) userEntry s = (e1, s1)"
    by (cases "appendEntry (doUser env) userEntry s")
  with appendEntry_accepted [of userEntry "doUser env" s] assms
  have e1: "e1 = Inr ()" and s1: "entries s1 = entries s @ [userEntry]"
    by (auto simp: userEntry_def)
  obtain fetched s2 where g: "getRecentEntries (doRecent env) 10 s1 = (fetched, s2)"
    by (cases "getRecentEntries (doRecent env) 10 s1")
  with getRecentEntries_entries [of "doRecent env" 10 s1] s1
  have s2: "entries s2 = entries s @ [userEntry]" by simp
  have u: "role userEntry = User" by (simp add: userEntry_def)
  define attempt where "attempt =
    (case fetched of
       Inl err \<Rightarrow> Inl err
     | Inr None \<Rightarrow> Inl (Error (js ''Cannot read properties of undefined (reading 'length')''))
     | Inr (Some context) \<Rightarrow>
         if length context = 0 then Inr noContextReply
         else answerFollowup (aiRun env) message context)"
  show ?thesis
  proof (cases attempt)
    case (Inl err)
    define reply where "reply = js ''Sorry, I couldn't answer your question. ''
                                @ messageOr err (js ''Please try again.'')"
    have "\<exists>calls. processMessage env message s =
          storeAssistant env reply
            \<lparr>role = Assistant, content = reply, entryType = None, url = None,
             createdAt = nowAssistant env\<rparr> calls s2"
      using assms(1) a1 e1 g Inl
      by (auto simp: processMessage_def Let_def attempt_def reply_def userEntry_def
          split: sum.splits option.splits if_splits)
    then obtain calls where "processMessage env message s =
          storeAssistant env reply
            \<lparr>role = Assistant, content = reply, entryType = None, url = None,
             createdAt = nowAssistant env\<rparr> calls s2" ..
    moreover have "reply \<noteq> []" by (simp add: reply_def)
    ultimately have "turnLogged s (processMessage env message s) reply None"
      using storeAssistant_logged [OF s2 u, of _ reply env None] assms(4) by simp
    then show ?thesis by blast
  next
    case (Inr reply)
    have "reply \<noteq> []"
    proof (cases fetched)
      case (Inl err)
      with Inr show ?thesis by (simp add: attempt_def)
    next
      case inner: (Inr ctx)
      show ?thesis
      proof (cases ctx)
        case None
        with Inr inner show ?thesis by (simp add: attempt_def)
      next
        case (Some found)
        with Inr inner assms(5) answerFollowup_nonempty [of "aiRun env" message found reply]
        show ?thesis
          by (auto simp: attempt_def noContextReply_def split: if_splits)
      qed
    qed
    moreover have "\<exists>calls. processMessage env message s =
          storeAssistant env reply
            \<lparr>role = Assistant, content = reply, entryType = Some Followup, url = None,
             createdAt = nowAssistant env\<rparr> calls s2"
      using assms(1) a1 e1 g Inr
      by (auto simp: processMessage_def Let_def attempt_def userEntry_def
          split: sum.splits option.splits if_splits)
    then obtain calls where "processMessage env message s =
          storeAssistant env reply
            \<lparr>role = Assistant, content = reply, entryType = Some Followup, url = None,
             createdAt = nowAssistant env\<rparr> calls s2" ..
    ultimately have "turnLogged s (processMessage env message s) reply None"
      using storeAssistant_logged [OF s2 u, of _ reply env None] assms(4) by simp
    then show ?thesis by blast
  qed
qed

lemma turn_logged:
  assumes "message \<noteq> []" "putOk (doUser env)" "putOk (doAssistant env)"
    "\<forall>p. nonEmptyAnswer (aiRun env p)"
  shows "\<exists>reply source. turnLogged s (processMessage env message s) reply source"
proof (cases "determineMessageType message")
  case URL
  from url_turn_logged [OF this assms(2-4)] show ?thesis .
next
  case CONTENT
  from content_turn_logged [OF this assms] show ?thesis .
next
  case FOLLOWUP
  from followup_turn_logged [OF this assms] show ?thesis .
qed

lemma processAll_length:
  assumes "\<forall>(env, message)\<in>set turns.
             message \<noteq> [] \<and> putOk (doUser env) \<and> putOk (doAssistant env) \<and>
             (\<forall>p. nonEmptyAnswer (aiRun env p))"
  shows "length (entries (processAll turns s)) = length (entries s) + 2 * length turns"
  using assms
proof (induction turns arbitrary: s)
  case Nil
  then show ?case by simp
next
  case (Cons t turns)
  obtain env message where t: "t = (env, message)" by (cases t)
  with Cons.prems have good: "message \<noteq> []" "putOk (doUser env)" "putOk (doAssistant env)"
    "\<forall>p. nonEmptyAnswer (aiRun env p)" by simp_all
  from turn_logged [OF good, of s] turnLogged_length
  have "length (entries (room (processMessage env message s))) = length (entries s) + 2"
    by blast
  moreover from Cons.prems have "\<forall>(env, message)\<in>set turns.
             message \<noteq> [] \<and> putOk (doUser env) \<and> putOk (doAssistant env) \<and>
             (\<forall>p. nonEmptyAnswer (aiRun env p))" by simp
  ultimately show ?case using Cons.IH [of "room (processMessage env message s)"] t by simp
qed

lemma parseInt_ten: "parseInt (decimal 10) = Some 10"
  by code_simp

lemma slice_snoc_nonempty: "slice (- 10) (xs @ [x]) \<noteq> []"
  by (simp add: slice_def Let_def max_def)

lemma getRecentEntries_ten:
  assumes "putOk env"
  shows "fst (getRecentEntries env 10 s) = Inr (Some (slice (- 10) (entries s)))"
  using assms parseInt_ten
  by (simp add: getRecentEntries_def fetch_def handleGetRecent_def saveState_def ok_def Let_def
      js_def split: prod.splits)

lemma generationCalls_storeAssistant:
  "generationCalls (storeAssistant env reply a calls s) = calls"
  by (simp add: storeAssistant_def split: prod.splits sum.splits)

lemma followup_calls_generation:
  assumes "determineMessageType message = FOLLOWUP" "message \<noteq> []"
    "putOk (doUser env)" "putOk (doRecent env)"
  shows "generationCalls (processMessage env message s) =
           [FollowupCall message
              (slice (- 10)
                 (entries s @ [\<lparr>role = User, content = message, entryType = Some Followup,
                                 url = None, createdAt = nowUser env\<rparr>]))]"
proof -
  define userEntry where "userEntry =
    \<lparr>role = User, content = message, entryType = Some Followup, url = None,
     createdAt = nowUser env\<rparr>"
  obtain e1 s1 where a1: "appendEntry (doUser env) userEntry s = (e1, s1)"
    by (cases "appendEntry (doUser env) userEntry s")
  with appendEntry_accepted [of userEntry "doUser env" s] assms
  have e1: "e1 = Inr ()" and s1: "entries s1 = entries s @ [userEntry]"
    by (auto simp: userEntry_def)
  obtain fetched s2 where g: "getRecentEntries (doRecent env) 10 s1 = (fetched, s2)"
    by (cases "getRecentEntries (doRecent env) 10 s1")
  with getRecentEntries_ten [OF assms(4), of s1] s1
  have f: "fetched = Inr (Some (slice (- 10) (entries s @ [userEntry])))" by simp
  show ?thesis
    using assms(1) a1 e1 g f slice_snoc_nonempty [of "entries s" userEntry]
    by (simp add: processMessage_def Let_def generationCalls_storeAssistant
        flip: userEntry_def split: sum.splits)
qed

lemma recent_positive_limit:
  assumes "limitParam request = Some v" "v \<noteq> []" "parseInt v = Some (int n)" "0 < n" "putOk env"
  shows "fst (handleGetRecent env request s) =
           Some \<lparr>status = 200,
                  body = RecentEntries (drop (length (entries s) - n) (entries s))\<rparr>"
  using assms by (simp add: handleGetRecent_def saveState_def Let_def slice_neg)

lemma recent_three_of_ten:
  "fst (handleGetRecent (storeAt 100) (recentRequest (js ''10'')) (roomWith threeLog)) =
     Some \<lparr>status = 200, body = RecentEntries threeLog\<rparr>"
  by code_simp

section \<open>The classifier\<close>

text \<open>
  C4. The message classifier is a total function that applies the rules of the
  specification in their order: the trimmed text starting with \<open>http://\<close> or
  \<open>https://\<close>, case ignored, is a URL; otherwise a trimmed text ending with \<open>?\<close> is a
  follow-up; otherwise a trimmed length above 200 is content; otherwise three or more of
  \<open>.\<close>, \<open>!\<close>, \<open>?\<close> in the text is content; otherwise it is a follow-up. At the
  boundaries: 200 characters is a follow-up and 201 is content; two marks is a follow-up
  and three is content.
\<close>

theorem classifier_follows_rules:
  "determineMessageType text = classify text \<and>
   determineMessageType (replicate 200 0x61) = FOLLOWUP \<and>
   determineMessageType (replicate 201 0x61) = CONTENT \<and>
   determineMessageType (js ''A. B. C'') = FOLLOWUP \<and>
   determineMessageType (js ''A. B. C.'') = CONTENT"
proof (intro conjI)
  show "determineMessageType text = classify text"
    by (rule determineMessageType_classify)
  show "determineMessageType (replicate 200 0x61) = FOLLOWUP" by code_simp
  show "determineMessageType (replicate 201 0x61) = CONTENT" by code_simp
  show "determineMessageType (js ''A. B. C'') = FOLLOWUP" by code_simp
  show "determineMessageType (js ''A. B. C.'') = CONTENT" by code_simp
qed

section \<open>The store's operations\<close>

text \<open>
  C6. The claim: for every log and every limit, \<open>recent\<close> returns the last \<open>limit\<close>
  entries in their order, and the whole log when the limit exceeds its length. The handler
  computes \<open>entries.slice(-limit)\<close>, and \<open>-0\<close> is \<open>0\<close>: with a log of three entries
  and \<open>limit=0\<close> the response holds all three entries, not the last zero. (For a positive
  limit the claim holds, \<open>recent_positive_limit\<close>, and three entries with limit 10 come
  back whole, \<open>recent_three_of_ten\<close>.)
\<close>

theorem recent_limit_zero_returns_whole_log:
  "fst (handleGetRecent (storeAt 100) (recentRequest (js ''0'')) (roomWith threeLog)) =
     Some \<lparr>status = 200, body = RecentEntries threeLog\<rparr> \<and>
   length threeLog = 3"
  by code_simp

text \<open>
  C8, as claimed: \<open>createdAt\<close> is assigned by the store at append time and never taken
  from the client's entry, and is non-decreasing along the log. The store keeps a supplied
  \<open>createdAt\<close>: appended at store time 100 to a log stamped 50 and 52, an entry that
  carries \<open>createdAt = 5\<close> is committed with 5, and the log is no longer ordered.
\<close>

theorem append_keeps_supplied_timestamp:
  "map createdAt (entries (snd (handleAppend (storeAt 100) (appendRequest stampedEntry)
                                  (roomWith pairLog)))) = [50, 52, 5] \<and>
   fst (handleAppend (storeAt 100) (appendRequest stampedEntry) (roomWith pairLog)) =
     Some \<lparr>status = 200, body = AppendOk 3\<rparr> \<and>
   nowCreated (storeAt 100) = 100 \<and>
   \<not> sorted [50, 52, 5 :: nat]"
  by code_simp

text \<open>
  C8, amended: an accepted append commits the entry with the \<open>createdAt\<close> it carries,
  and with the store's clock at append time only when it carries none; the
  \<open>createdAt\<close> values of the log stay non-decreasing whenever that timestamp is not
  earlier than those already in the log.
\<close>

theorem append_timestamp:
  assumes "requestMethod request = POST" and "requestBody request = Some entry"
    and "jsonRole entry = Some r" and "jsonContent entry = Some c" and "c \<noteq> []"
  shows "entries (snd (handleAppend env request s)) =
           entries s @ [\<lparr>role = r, content = c, entryType = jsonType entry, url = jsonUrl entry,
                          createdAt = (case jsonCreatedAt entry of
                                         None \<Rightarrow> nowCreated env | Some t \<Rightarrow> t)\<rparr>] \<and>
         (sorted (map createdAt (entries s)) \<and>
          (\<forall>x\<in>set (entries s).
              createdAt x \<le> (case jsonCreatedAt entry of
                                None \<Rightarrow> nowCreated env | Some t \<Rightarrow> t)) \<longrightarrow>
          sorted (map createdAt (entries (snd (handleAppend env request s)))))"
  using handleAppend_valid(1) [OF assms, of env s]
  by (auto simp: sorted_append)

theorem append_timestamp_witness:
  "requestMethod (appendRequest unstampedEntry) = POST \<and>
   requestBody (appendRequest unstampedEntry) = Some unstampedEntry \<and>
   jsonRole unstampedEntry = Some User \<and> jsonContent unstampedEntry = Some (js ''hi'') \<and>
   js ''hi'' \<noteq> [] \<and>
   sorted (map createdAt (entries (roomWith pairLog))) \<and>
   map createdAt (entries (roomWith pairLog)) = [50, 52] \<and>
   map createdAt (entries (snd (handleAppend (storeAt 100) (appendRequest unstampedEntry)
                                  (roomWith pairLog)))) = [50, 52, 100] \<and>
   sorted (map createdAt (entries (snd (handleAppend (storeAt 100) (appendRequest unstampedEntry)
                                  (roomWith pairLog)))))"
proof -
  have h: "requestMethod (appendRequest unstampedEntry) = POST"
    "requestBody (appendRequest unstampedEntry) = Some unstampedEntry"
    "jsonRole unstampedEntry = Some User" "jsonContent unstampedEntry = Some (js ''hi'')"
    "js ''hi'' \<noteq> []"
    by (simp_all add: appendRequest_def unstampedEntry_def js_def)
  show ?thesis
    using h append_timestamp [OF h, of "storeAt 100" "roomWith pairLog"]
    by (simp add: unstampedEntry_def storeAt_def roomWith_def pairLog_def)
qed

text \<open>
  C9, as claimed: every read or write of a session's log, the stats read included, updates
  \<open>lastAccessedAt\<close>. The stats handler changes nothing: asked at store time 100, a
  session last accessed at 7 is still last accessed at 7.
\<close>

theorem stats_leaves_access_time:
  "lastAccessedAt (snd (fetch (storeAt 100) statsRequest (roomWith threeLog))) = 7 \<and>
   nowAccessed (storeAt 100) = 100 \<and>
   snd (handleGetStats (roomWith threeLog)) = roomWith threeLog"
  by code_simp

text \<open>
  C9, amended: an append of a valid entry, a \<open>recent\<close> and a \<open>clear\<close> each set
  \<open>lastAccessedAt\<close> to the store's clock; the stats read leaves the session as it was.
\<close>

theorem access_time_updates:
  "(requestMethod request = POST \<and> requestBody request = Some entry \<and>
    jsonRole entry = Some r \<and> jsonContent entry = Some c \<and> c \<noteq> [] \<longrightarrow>
    lastAccessedAt (snd (handleAppend env request s)) = nowAccessed env) \<and>
   lastAccessedAt (snd (handleGetRecent env request s)) = nowAccessed env \<and>
   lastAccessedAt (snd (handleClear env s)) = nowAccessed env \<and>
   snd (handleGetStats s) = s"
  using handleAppend_valid(2) [of request entry r c env s]
  by (simp add: handleGetRecent_state handleClear_state handleGetStats_def)

theorem access_time_updates_witness:
  "requestMethod (appendRequest unstampedEntry) = POST \<and>
   requestBody (appendRequest unstampedEntry) = Some unstampedEntry \<and>
   jsonRole unstampedEntry = Some User \<and> jsonContent unstampedEntry = Some (js ''hi'') \<and>
   js ''hi'' \<noteq> [] \<and>
   lastAccessedAt (snd (handleAppend (storeAt 100) (appendRequest unstampedEntry)
                          (roomWith pairLog))) = 100"
  using access_time_updates [of "appendRequest unstampedEntry" unstampedEntry User "js ''hi''"
      "storeAt 100" "roomWith pairLog"]
  by (simp add: appendRequest_def unstampedEntry_def js_def storeAt_def)

text \<open>
  C10. An append request (a POST, as \<open>appendEntry\<close> sends it) whose entry has no role,
  no content or an empty content is answered with status 400 and leaves the session
  unchanged; so \<open>appendEntry\<close> fails on an entry with empty content and the log stays as
  it was, and no request to the store ever puts an entry with empty content into a log that
  had none.
\<close>

theorem append_rejects_invalid_entry:
  "(requestMethod request = POST \<and> requestBody request = Some entry \<and>
    (jsonRole entry = None \<or> jsonContent entry = None \<or> jsonContent entry = Some []) \<longrightarrow>
    handleAppend env request s =
      (Some \<lparr>status = 400,
             body = ErrorJson (js ''Invalid entry: role and content are required'')\<rparr>, s)) \<and>
   (content e = [] \<longrightarrow>
    appendEntry env e s = (Inl (Error (js ''Failed to append entry to conversation'')), s)) \<and>
   ((\<forall>x\<in>set (entries s). content x \<noteq> []) \<longrightarrow>
    (\<forall>x\<in>set (entries (snd (fetch env request s))). content x \<noteq> []))"
  using handleAppend_invalid [of request entry env s] appendEntry_rejected [of e env s]
    fetch_content [of s env request]
  by blast

theorem append_rejects_invalid_entry_witness:
  "requestMethod (appendRequest noRoleEntry) = POST \<and>
   requestBody (appendRequest noRoleEntry) = Some noRoleEntry \<and>
   jsonRole noRoleEntry = None \<and>
   content emptyReplyEntry = [] \<and>
   [] \<notin> set (map content (entries (roomWith pairLog))) \<and>
   fst (handleAppend (storeAt 100) (appendRequest noRoleEntry) (roomWith pairLog)) =
     Some \<lparr>status = 400,
            body = ErrorJson (js ''Invalid entry: role and content are required'')\<rparr> \<and>
   entries (snd (handleAppend (storeAt 100) (appendRequest noRoleEntry) (roomWith pairLog))) =
     pairLog \<and>
   entries (snd (appendEntry (storeAt 100) emptyReplyEntry (roomWith pairLog))) = pairLog \<and>
   [] \<notin> set (map content (entries (snd (fetch (storeAt 100) (appendRequest noRoleEntry)
                                                (roomWith pairLog)))))"
proof -
  have h: "requestMethod (appendRequest noRoleEntry) = POST"
    "requestBody (appendRequest noRoleEntry) = Some noRoleEntry"
    "jsonRole noRoleEntry = None" "content emptyReplyEntry = []"
    by (simp_all add: appendRequest_def noRoleEntry_def emptyReplyEntry_def)
  have c: "\<forall>x\<in>set (entries (roomWith pairLog)). content x \<noteq> []"
    by (simp add: roomWith_def pairLog_def js_def)
  show ?thesis
    using h c append_rejects_invalid_entry [of "appendRequest noRoleEntry" noRoleEntry
        "storeAt 100" "roomWith pairLog" emptyReplyEntry]
    by (auto simp: roomWith_def)
qed

section \<open>The context window\<close>

text \<open>
  C5. For every sequence of entries the prompt is built from its last five entries (five
  in all, fewer when the sequence is shorter), in their order: a user entry of kind
  url-summary with a URL reads \<open>User submitted URL: {url}\<close>, any other user entry is its
  content cut to 200 characters, an assistant entry its content cut to 300 characters, each
  with the ellipsis marker when cut.
\<close>

theorem context_window_last_five:
  "buildFollowupPrompt question context =
     js ''You are EdgeSummon, an AI assistant that helps users understand and discuss content from web pages and documents.\<newline>\<newline>Previous conversation context:\<newline>''
     @ concat (map renderEntry (drop (length context - 5) context))
     @ js ''\<newline>\<newline>Current question: '' @ question
     @ js ''\<newline>\<newline>Provide a helpful, accurate answer based on the conversation context. If the question cannot be answered from the context, say so clearly.'' \<and>
   length (drop (length context - 5) context) = min 5 (length context) \<and>
   take (length context - 5) context @ drop (length context - 5) context = context"
  by (simp add: buildFollowupPrompt_def slice_last_five foldl_addContextLine Let_def min_def)

section \<open>Turns\<close>

text \<open>
  C1. The claim: in a follow-up turn the context is fetched before the user entry of the
  current question is appended, so the context given to generation does not hold that
  question. The branch appends the user entry first and fetches afterwards: on a log of two
  entries, the context passed to generation ends with the question being asked. (For every
  follow-up turn whose requests to the store succeed, \<open>followup_calls_generation\<close>.)
\<close>

theorem followup_context_holds_current_question:
  "generationCalls
     (processMessage (exampleEnv longPage (AiString (js ''It costs 5.'')))
        (js ''What does it cost?'') (roomWith pairLog)) =
   [FollowupCall (js ''What does it cost?'')
      (pairLog @ [\<lparr>role = User, content = js ''What does it cost?'',
                    entryType = Some Followup, url = None, createdAt = 100\<rparr>])]"
  by code_simp

text \<open>
  C2. The claim: a follow-up on an empty log skips generation and replies with the fixed
  message about missing context, and still appends two entries. Since the user entry is
  appended before the context is fetched, the context of a follow-up on an empty log is that
  one entry: generation is called and its answer is the reply. Two entries are appended.
\<close>

theorem empty_log_followup_calls_generation:
  "outcome (processMessage (exampleEnv longPage (AiString (js ''It is.'')))
              (js ''Is this true?'') (roomWith [])) = Inr (js ''It is.'') \<and>
   generationCalls (processMessage (exampleEnv longPage (AiString (js ''It is.'')))
                      (js ''Is this true?'') (roomWith [])) =
     [FollowupCall (js ''Is this true?'')
        [\<lparr>role = User, content = js ''Is this true?'', entryType = Some Followup,
          url = None, createdAt = 100\<rparr>]] \<and>
   map role (entries (room (processMessage (exampleEnv longPage (AiString (js ''It is.'')))
                              (js ''Is this true?'') (roomWith [])))) = [User, Assistant] \<and>
   determineMessageType (js ''Is this true?'') = FOLLOWUP \<and>
   js ''It is.'' \<noteq> noContextReply"
  by code_simp

text \<open>
  C3, as claimed: every message processed without a storage failure adds two entries to the
  log. With every write to storage completing, a follow-up that the model answers with
  white space only adds the user entry alone: the trimmed reply is empty, the store rejects
  the assistant entry, and the turn ends in an error.
\<close>

theorem empty_answer_leaves_one_entry:
  "outcome (processMessage (exampleEnv longPage (AiString (js '' '')))
              (js ''Is this true?'') (roomWith pairLog)) =
     Inl (Error (js ''Failed to append entry to conversation'')) \<and>
   entries (room (processMessage (exampleEnv longPage (AiString (js '' '')))
                    (js ''Is this true?'') (roomWith pairLog))) =
     pairLog @ [\<lparr>role = User, content = js ''Is this true?'', entryType = Some Followup,
                  url = None, createdAt = 100\<rparr>] \<and>
   putOk (doUser (exampleEnv longPage (AiString (js '' '')))) \<and>
   putOk (doRecent (exampleEnv longPage (AiString (js '' '')))) \<and>
   putOk (doAssistant (exampleEnv longPage (AiString (js '' ''))))"
  by code_simp

text \<open>
  C3, amended: a message that is not empty, in a turn where the store's writes for the two
  appends complete and the model gives no answer that is empty once trimmed, returns a
  reply and adds two entries to the log, a user entry and then an assistant entry holding
  the reply, also when extraction or generation fails; after any number of such messages the
  log has grown by twice that number.
\<close>

theorem log_grows_by_two:
  "(message \<noteq> [] \<and> putOk (doUser env) \<and> putOk (doAssistant env) \<and>
    (\<forall>p. nonEmptyAnswer (aiRun env p)) \<longrightarrow>
    (\<exists>reply source. turnLogged s (processMessage env message s) reply source) \<and>
    length (entries (room (processMessage env message s))) = length (entries s) + 2) \<and>
   ((\<forall>(env, message)\<in>set turns.
        message \<noteq> [] \<and> putOk (doUser env) \<and> putOk (doAssistant env) \<and>
        (\<forall>p. nonEmptyAnswer (aiRun env p))) \<longrightarrow>
    length (entries (processAll turns s)) = length (entries s) + 2 * length turns)"
proof (intro conjI impI)
  assume "message \<noteq> [] \<and> putOk (doUser env) \<and> putOk (doAssistant env) \<and>
    (\<forall>p. nonEmptyAnswer (aiRun env p))"
  then have l: "\<exists>reply source. turnLogged s (processMessage env message s) reply source"
    using turn_logged [of message env s] by blast
  then show "\<exists>reply source. turnLogged s (processMessage env message s) reply source" .
  from l turnLogged_length
  show "length (entries (room (processMessage env message s))) = length (entries s) + 2"
    by blast
next
  assume "\<forall>(env, message)\<in>set turns.
        message \<noteq> [] \<and> putOk (doUser env) \<and> putOk (doAssistant env) \<and>
        (\<forall>p. nonEmptyAnswer (aiRun env p))"
  then show "length (entries (processAll turns s)) = length (entries s) + 2 * length turns"
    by (rule processAll_length)
qed

theorem log_grows_by_two_witness:
  "js ''https://x.com'' \<noteq> [] \<and>
   putOk (doUser (exampleEnv shortPage AiThrows)) \<and>
   putOk (doAssistant (exampleEnv shortPage AiThrows)) \<and>
   (\<forall>p. nonEmptyAnswer (aiRun (exampleEnv shortPage AiThrows) p)) \<and>
   (\<forall>p. nonEmptyAnswer (aiRun (exampleEnv longPage (AiString (js ''It is.''))) p)) \<and>
   length (entries (room (processMessage (exampleEnv shortPage AiThrows) (js ''https://x.com'')
                            (roomWith pairLog)))) = 4 \<and>
   length (entries (processAll
                      [(exampleEnv shortPage AiThrows, js ''https://x.com''),
                       (exampleEnv longPage (AiString (js ''It is.'')), js ''Is this true?'')]
                      (roomWith []))) = 4"
proof -
  have a: "js ''https://x.com'' \<noteq> []" "js ''Is this true?'' \<noteq> []"
    "putOk (doUser (exampleEnv w r))" "putOk (doAssistant (exampleEnv w r))" for w r
    by (simp_all add: exampleEnv_def storeAt_def)
  have b: "\<forall>p. nonEmptyAnswer (aiRun (exampleEnv shortPage AiThrows) p)"
    by (simp add: exampleEnv_def nonEmptyAnswer_def)
  have "0 < length (trim (js ''It is.''))" by code_simp
  then have c: "\<forall>p. nonEmptyAnswer (aiRun (exampleEnv longPage (AiString (js ''It is.''))) p)"
    by (simp add: exampleEnv_def nonEmptyAnswer_def)
  have pl: "length (entries (roomWith pairLog)) = 2" "length (entries (roomWith [])) = 0"
    by (simp_all add: roomWith_def pairLog_def)
  show ?thesis
    using a b c pl
      log_grows_by_two [of "js ''https://x.com''" "exampleEnv shortPage AiThrows"
        "roomWith pairLog" "[]"]
      log_grows_by_two [of "js ''https://x.com''" "exampleEnv shortPage AiThrows" "roomWith []"
        "[(exampleEnv shortPage AiThrows, js ''https://x.com''),
          (exampleEnv longPage (AiString (js ''It is.'')), js ''Is this true?'')]"]
    by simp
qed

text \<open>
  C7, as claimed: in the URL branch the turn returns a reply equal to the assistant entry's
  content in all cases, success or failure. With a page of 60 characters and every write to
  storage completing, a model whose answer is the empty string makes the summary empty; the
  store rejects the assistant entry, no assistant entry is logged, and the turn ends in an
  error.
\<close>

theorem url_turn_empty_summary_raises:
  "outcome (processMessage (exampleEnv longPage (AiObject (Some [])))
              (js ''https://x.com'') (roomWith [])) =
     Inl (Error (js ''Failed to append entry to conversation'')) \<and>
   map role (entries (room (processMessage (exampleEnv longPage (AiObject (Some [])))
                              (js ''https://x.com'') (roomWith [])))) = [User] \<and>
   generateSummary (aiRun (exampleEnv longPage (AiObject (Some []))))
     (replicate 60 0x61) (Some (js ''https://x.com'')) = Inr [] \<and>
   putOk (doUser (exampleEnv longPage (AiObject (Some [])))) \<and>
   putOk (doAssistant (exampleEnv longPage (AiObject (Some []))))"
  by code_simp

text \<open>
  C7, amended: in the URL branch, when the store's writes for the two appends complete: a
  failed fetch (its error always carries a message), an extraction that is empty or shorter
  than 50 characters once trimmed, and a failed generation each make the turn return the
  apology embedding the failure's message, logged as the assistant entry without a
  \<open>url\<close>; a generated summary that is not empty is returned and logged with the
  \<open>url\<close>. The only error a turn can raise is the failure of an append, never an
  error of extraction or generation.
\<close>

theorem url_turn_outcomes:
  assumes "determineMessageType message = URL"
    and "putOk (doUser env)" and "putOk (doAssistant env)"
  shows
   "(fetchAndExtractText (web env) (extractTextFromHTML env) (trim message) = Inl err \<longrightarrow>
       (\<exists>m. err = Error (js ''Failed to fetch URL: '' @ m)) \<and>
       turnLogged s (processMessage env message s)
         (js ''Sorry, I couldn't fetch or summarize that URL. ''
          @ messageOr err (js ''Please check the URL and try again.'')) None) \<and>
    (fetchAndExtractText (web env) (extractTextFromHTML env) (trim message) = Inr extracted \<and>
     (extracted = [] \<or> length (trim extracted) < 50) \<longrightarrow>
       turnLogged s (processMessage env message s)
         (js ''Sorry, I couldn't fetch or summarize that URL. Could not extract meaningful content from the URL'')
         None) \<and>
    (fetchAndExtractText (web env) (extractTextFromHTML env) (trim message) = Inr extracted \<and>
     extracted \<noteq> [] \<and> 50 \<le> length (trim extracted) \<and>
     generateSummary (aiRun env) extracted (Some (trim message)) = Inl err \<longrightarrow>
       turnLogged s (processMessage env message s)
         (js ''Sorry, I couldn't fetch or summarize that URL. Failed to generate summary. Please try again.'')
         None) \<and>
    (fetchAndExtractText (web env) (extractTextFromHTML env) (trim message) = Inr extracted \<and>
     extracted \<noteq> [] \<and> 50 \<le> length (trim extracted) \<and>
     generateSummary (aiRun env) extracted (Some (trim message)) = Inr reply \<and> reply \<noteq> [] \<longrightarrow>
       turnLogged s (processMessage env message s) reply (Some (trim message))) \<and>
    (outcome (processMessage env message s) = Inl e \<longrightarrow>
       e = Error (js ''Failed to append entry to conversation''))"
  using url_fetch_failure [OF assms, of err s] fetchAndExtractText_error [of "web env" _ _ err]
    url_extraction_short [OF assms, of extracted s]
    url_generation_failure [OF assms, of extracted err s]
    url_success [OF assms, of extracted reply s]
    processMessage_error [of env message s e]
  by blast

theorem url_turn_outcomes_witness:
  "determineMessageType (js ''https://x.com'') = URL \<and>
   putOk (doUser (exampleEnv pdfPage AiThrows)) \<and>
   putOk (doAssistant (exampleEnv pdfPage AiThrows)) \<and>
   fetchAndExtractText (web (exampleEnv pdfPage AiThrows))
     (extractTextFromHTML (exampleEnv pdfPage AiThrows)) (trim (js ''https://x.com'')) =
     Inl (Error (js ''Failed to fetch URL: URL does not return HTML content'')) \<and>
   turnLogged (roomWith [])
     (processMessage (exampleEnv pdfPage AiThrows) (js ''https://x.com'') (roomWith []))
     (js ''Sorry, I couldn't fetch or summarize that URL. ''
      @ js ''Failed to fetch URL: URL does not return HTML content'') None \<and>
   fetchAndExtractText (web (exampleEnv shortPage AiThrows))
     (extractTextFromHTML (exampleEnv shortPage AiThrows)) (trim (js ''https://x.com'')) =
     Inr (replicate 30 0x61) \<and>
   length (trim (replicate 30 (0x61 :: jschar))) < 50 \<and>
   turnLogged (roomWith [])
     (processMessage (exampleEnv shortPage AiThrows) (js ''https://x.com'') (roomWith []))
     (js ''Sorry, I couldn't fetch or summarize that URL. Could not extract meaningful content from the URL'')
     None \<and>
   fetchAndExtractText (web (exampleEnv longPage AiThrows))
     (extractTextFromHTML (exampleEnv longPage AiThrows)) (trim (js ''https://x.com'')) =
     Inr (replicate 60 0x61) \<and>
   50 \<le> length (trim (replicate 60 (0x61 :: jschar))) \<and>
   generateSummary (aiRun (exampleEnv longPage AiThrows)) (replicate 60 0x61)
     (Some (trim (js ''https://x.com''))) =
     Inl (Error (js ''Failed to generate summary. Please try again.'')) \<and>
   turnLogged (roomWith [])
     (processMessage (exampleEnv longPage AiThrows) (js ''https://x.com'') (roomWith []))
     (js ''Sorry, I couldn't fetch or summarize that URL. Failed to generate summary. Please try again.'')
     None \<and>
   generateSummary (aiRun (exampleEnv longPage (AiString (js ''A page about x.''))))
     (replicate 60 0x61) (Some (trim (js ''https://x.com''))) = Inr (js ''A page about x.'') \<and>
   turnLogged (roomWith [])
     (processMessage (exampleEnv longPage (AiString (js ''A page about x.'')))
        (js ''https://x.com'') (roomWith []))
     (js ''A page about x.'') (Some (trim (js ''https://x.com''))) \<and>
   outcome (processMessage (exampleEnv longPage (AiObject (Some [])))
              (js ''https://x.com'') (roomWith [])) =
     Inl (Error (js ''Failed to append entry to conversation''))"
proof -
  have u: "determineMessageType (js ''https://x.com'') = URL" by code_simp
  have p: "putOk (doUser (exampleEnv w r))" "putOk (doAssistant (exampleEnv w r))" for w r
    by (simp_all add: exampleEnv_def storeAt_def)
  have f1: "fetchAndExtractText (web (exampleEnv pdfPage AiThrows))
     (extractTextFromHTML (exampleEnv pdfPage AiThrows)) (trim (js ''https://x.com'')) =
     Inl (Error (js ''Failed to fetch URL: URL does not return HTML content''))"
    by code_simp
  have f2: "fetchAndExtractText (web (exampleEnv shortPage r))
     (extractTextFromHTML (exampleEnv shortPage r)) (trim (js ''https://x.com'')) =
     Inr (replicate 30 0x61)" for r
    by (simp add: exampleEnv_def shortPage_def exampleWeb_def fetchAndExtractText_def
        fetchURL_def js_def)
  have f3: "fetchAndExtractText (web (exampleEnv longPage r))
     (extractTextFromHTML (exampleEnv longPage r)) (trim (js ''https://x.com'')) =
     Inr (replicate 60 0x61)" for r
    by (simp add: exampleEnv_def longPage_def exampleWeb_def fetchAndExtractText_def
        fetchURL_def js_def)
  have l2: "length (trim (replicate 30 (0x61 :: jschar))) < 50" by code_simp
  have l3: "replicate 60 (0x61 :: jschar) \<noteq> []"
    "50 \<le> length (trim (replicate 60 (0x61 :: jschar)))" by code_simp+
  have g3: "generateSummary (aiRun (exampleEnv longPage AiThrows)) (replicate 60 0x61)
     (Some (trim (js ''https://x.com''))) =
     Inl (Error (js ''Failed to generate summary. Please try again.''))"
    by (simp add: exampleEnv_def generateSummary_def)
  have g4: "generateSummary (aiRun (exampleEnv longPage (AiString (js ''A page about x.''))))
     (replicate 60 0x61) (Some (trim (js ''https://x.com''))) = Inr (js ''A page about x.'')"
    by code_simp
  have n4: "js ''A page about x.'' \<noteq> []" by simp
  have o5: "outcome (processMessage (exampleEnv longPage (AiObject (Some [])))
              (js ''https://x.com'') (roomWith [])) =
     Inl (Error (js ''Failed to append entry to conversation''))"
    by code_simp
  have c1: "turnLogged (roomWith [])
     (processMessage (exampleEnv pdfPage AiThrows) (js ''https://x.com'') (roomWith []))
     (js ''Sorry, I couldn't fetch or summarize that URL. ''
      @ js ''Failed to fetch URL: URL does not return HTML content'') None"
    using f1 url_turn_outcomes [where env = "exampleEnv pdfPage AiThrows"
        and s = "roomWith []"
        and err = "Error (js ''Failed to fetch URL: URL does not return HTML content'')", OF u p]
    by (simp add: messageOr_def)
  have c2: "turnLogged (roomWith [])
     (processMessage (exampleEnv shortPage AiThrows) (js ''https://x.com'') (roomWith []))
     (js ''Sorry, I couldn't fetch or summarize that URL. Could not extract meaningful content from the URL'')
     None"
    using f2 l2 url_turn_outcomes [where env = "exampleEnv shortPage AiThrows"
        and s = "roomWith []" and extracted = "replicate 30 0x61", OF u p]
    by blast
  have c3: "turnLogged (roomWith [])
     (processMessage (exampleEnv longPage AiThrows) (js ''https://x.com'') (roomWith []))
     (js ''Sorry, I couldn't fetch or summarize that URL. Failed to generate summary. Please try again.'')
     None"
    using f3 l3 g3 url_turn_outcomes [where env = "exampleEnv longPage AiThrows"
        and s = "roomWith []" and extracted = "replicate 60 0x61"
        and err = "Error (js ''Failed to generate summary. Please try again.'')", OF u p]
    by blast
  have c4: "turnLogged (roomWith [])
     (processMessage (exampleEnv longPage (AiString (js ''A page about x.'')))
        (js ''https://x.com'') (roomWith []))
     (js ''A page about x.'') (Some (trim (js ''https://x.com'')))"
    using f3 l3 g4 n4 url_turn_outcomes [where env = "exampleEnv longPage (AiString (js ''A page about x.''))"
        and s = "roomWith []" and extracted = "replicate 60 0x61"
        and reply = "js ''A page about x.''", OF u p]
    by blast
  from u p f1 c1 f2 l2 c2 f3 l3 g3 c3 g4 c4 o5 show ?thesis by blast
qed

end
